theory Spec2Isabelle
  imports Main
begin

section \<open>The OBJ loader of obj.go\<close>

text \<open>
  A shallow embedding of \<^verbatim>\<open>loadObjFromFile\<close> and of the four line handlers it calls.
  The Go methods mutate the receiver \<^verbatim>\<open>*Obj\<close> and return an \<^verbatim>\<open>error\<close>; here
  they take the object and return the updated object, an error value, or a run-time panic.
  A 64-bit float is a value of an arbitrary type \<open>'f\<close>; \<^verbatim>\<open>strconv.ParseFloat\<close> is a
  parameter \<open>pf\<close> of every function that calls it (\<open>None\<close> when it reports an error).
\<close>

subsection \<open>Data\<close>

text \<open>
  \<^verbatim>\<open>Vertex3\<close>, \<^verbatim>\<open>Vertex2\<close> and \<^verbatim>\<open>Face\<close> are declared in another file of the
  package; obj.go uses the fields below (the arrays of length three are triples).
\<close>

record 'f Vertex3 =
  X :: 'f
  Y :: 'f
  Z :: 'f

record 'f Vertex2 =
  X :: 'f
  Y :: 'f

record 'f Face =
  Vertices :: "'f Vertex3 \<times> 'f Vertex3 \<times> 'f Vertex3"
  Textures :: "'f Vertex2 \<times> 'f Vertex2 \<times> 'f Vertex2"
  Normals :: "'f Vertex3 \<times> 'f Vertex3 \<times> 'f Vertex3"

record 'f Obj =
  Faces :: "'f Face list"
  vertices :: "'f Vertex3 list"
  textures :: "'f Vertex2 list"
  normals :: "'f Vertex3 list"

subsection \<open>Errors and panics\<close>

text \<open>
  One constructor for each message the code builds, carrying the values it formats in:
  \<^item> \<open>InsufficientPoints d n\<close>: "insufficient points found in \<open>d\<close> directive on line \<open>n\<close>";
  \<^item> \<open>InvalidFloat c d n\<close>: "invalid float \<open>c\<close> coordinate found in \<open>d\<close> directive on line \<open>n\<close>";
  \<^item> \<open>UnableToResolve d i n\<close>: "unable to resolve \<open>d\<close> id \<open>i\<close> used on line \<open>n\<close>";
  \<^item> \<open>NumError s\<close>: the \<^verbatim>\<open>*strconv.NumError\<close> of \<^verbatim>\<open>Atoi\<close> on the text \<open>s\<close>, which
    parseFaceLine returns as it is; it holds the text and the reason, and no line number.
\<close>

datatype directive = VertexD | VertexNormalD | VertexTextureD | FaceD

datatype coordinate = CoordX | CoordY | CoordZ

datatype error =
    InsufficientPoints directive nat
  | InvalidFloat coordinate directive nat
  | UnableToResolve directive int nat
  | NumError string

text \<open>The two run-time panics of Go that the code can reach.\<close>

datatype panic = IndexOutOfRange | SliceBoundsOutOfRange

datatype 'a result = Ok 'a | Err error | Panic panic

fun thenDo :: "'a result \<Rightarrow> ('a \<Rightarrow> 'b result) \<Rightarrow> 'b result" where
  "thenDo (Ok x) f = f x"
| "thenDo (Err e) f = Err e"
| "thenDo (Panic p) f = Panic p"

text \<open>\<^verbatim>\<open>xs[i]\<close> on a slice: a panic outside \<open>0 \<le> i < len(xs)\<close>.\<close>

definition index :: "'a list \<Rightarrow> int \<Rightarrow> 'a result" where
  "index xs i =
     (if 0 \<le> i \<and> i < int (length xs) then Ok (xs ! nat i) else Panic IndexOutOfRange)"

subsection \<open>Library functions\<close>

text \<open>
  \<^verbatim>\<open>strings.Split(s, sep)\<close> for a separator of one byte (the code splits on " " and on
  "/"): the pieces between the separators, one more than there are separators, so never
  an empty list.
\<close>

fun Split :: "string \<Rightarrow> char \<Rightarrow> string list" where
  "Split [] sep = [[]]"
| "Split (c # s) sep =
     (if c = sep then [] # Split s sep
      else (case Split s sep of
              [] \<Rightarrow> [[c]]
            | piece # pieces \<Rightarrow> (c # piece) # pieces))"

text \<open>
  \<^verbatim>\<open>strconv.Atoi\<close> where \<^verbatim>\<open>int\<close> has 64 bits: an optional sign, then one or more decimal
  digits, and a value that fits; anything else is a \<^verbatim>\<open>*NumError\<close>.
\<close>

definition isDigit :: "char \<Rightarrow> bool" where
  "isDigit c = (48 \<le> (of_char c :: nat) \<and> (of_char c :: nat) \<le> 57)"

definition digitsValue :: "string \<Rightarrow> int" where
  "digitsValue s = foldl (\<lambda>n c. n * 10 + (int (of_char c) - 48)) 0 s"

definition Atoi :: "string \<Rightarrow> int result" where
  "Atoi s =
     (let neg = (s \<noteq> [] \<and> hd s = CHR ''-'');
          digits = (if s \<noteq> [] \<and> (hd s = CHR ''-'' \<or> hd s = CHR ''+'') then tl s else s)
      in if digits = [] \<or> \<not> list_all isDigit digits then Err (NumError s)
         else let n = (if neg then - digitsValue digits else digitsValue digits)
              in if n < - (2 ^ 63) \<or> 2 ^ 63 \<le> n then Err (NumError s) else Ok n)"

subsection \<open>Removing the empty parts\<close>

text \<open>
  Each handler runs
  \<^verbatim>\<open>for k, v := range parts { if v == "" { parts = append(parts[:k], parts[k+1:]...) } }\<close>.
  The range expression is evaluated once: \<open>k\<close> runs over the \<open>n\<close> indices of the slice as
  it was, and \<open>v\<close> is read from the backing array \<open>arr\<close>, which the appends write to
  (the slice that Split returns has capacity \<open>n\<close>, so no append reallocates). \<open>len\<close> is
  the current length of \<^verbatim>\<open>parts\<close>. \<^verbatim>\<open>parts[k+1:]\<close> panics when \<open>k + 1 > len\<close>; otherwise
  the append moves the elements \<open>k + 1 ..< len\<close> of the array one place down and leaves
  the rest of the array as it is.
\<close>

function removeEmptyFrom ::
  "nat \<Rightarrow> nat \<Rightarrow> string list \<Rightarrow> nat \<Rightarrow> string list result" where
  "removeEmptyFrom n k arr len =
     (if n \<le> k then Ok (take len arr)
      else if arr ! k = [] then
        (if len < k + 1 then Panic SliceBoundsOutOfRange
         else removeEmptyFrom n (k + 1)
                (take k arr @ drop (k + 1) (take len arr) @ drop (len - 1) arr) (len - 1))
      else removeEmptyFrom n (k + 1) arr len)"
  by pat_completeness auto
termination
  by (relation "measure (\<lambda>(n, k, arr, len). n - k)") auto

definition removeEmpty :: "string list \<Rightarrow> string list result" where
  "removeEmpty parts = removeEmptyFrom (length parts) 0 parts (length parts)"

subsection \<open>The line handlers\<close>

definition parseFloatAt ::
  "(string \<Rightarrow> 'f option) \<Rightarrow> string list \<Rightarrow> int \<Rightarrow> error \<Rightarrow> 'f result" where
  "parseFloatAt pf parts i e =
     thenDo (index parts i) (\<lambda>s. case pf s of None \<Rightarrow> Err e | Some x \<Rightarrow> Ok x)"

definition parseVertexLine ::
  "(string \<Rightarrow> 'f option) \<Rightarrow> 'f Obj \<Rightarrow> string \<Rightarrow> nat \<Rightarrow> 'f Obj result" where
  "parseVertexLine pf obj line lineNumber =
     (let parts = Split line CHR '' '' in
      if length parts < 4 then Err (InsufficientPoints VertexD lineNumber)
      else
        thenDo (removeEmpty parts) (\<lambda>parts.
        thenDo (parseFloatAt pf parts 1 (InvalidFloat CoordX VertexD lineNumber)) (\<lambda>x.
        thenDo (parseFloatAt pf parts 2 (InvalidFloat CoordY VertexD lineNumber)) (\<lambda>y.
        thenDo (parseFloatAt pf parts 3 (InvalidFloat CoordZ VertexD lineNumber)) (\<lambda>z.
        Ok (obj\<lparr>vertices := vertices obj @
                  [\<lparr>Vertex3.X = x, Vertex3.Y = y, Vertex3.Z = z\<rparr>]\<rparr>))))))"

definition parseVertexNormalLine ::
  "(string \<Rightarrow> 'f option) \<Rightarrow> 'f Obj \<Rightarrow> string \<Rightarrow> nat \<Rightarrow> 'f Obj result" where
  "parseVertexNormalLine pf obj line lineNumber =
     (let parts = Split line CHR '' '' in
      if length parts < 4 then Err (InsufficientPoints VertexNormalD lineNumber)
      else
        thenDo (removeEmpty parts) (\<lambda>parts.
        thenDo (parseFloatAt pf parts 1 (InvalidFloat CoordX VertexNormalD lineNumber)) (\<lambda>x.
        thenDo (parseFloatAt pf parts 2 (InvalidFloat CoordY VertexNormalD lineNumber)) (\<lambda>y.
        thenDo (parseFloatAt pf parts 3 (InvalidFloat CoordZ VertexNormalD lineNumber)) (\<lambda>z.
        Ok (obj\<lparr>normals := normals obj @
                  [\<lparr>Vertex3.X = x, Vertex3.Y = y, Vertex3.Z = z\<rparr>]\<rparr>))))))"

definition parseVertexTextureLine ::
  "(string \<Rightarrow> 'f option) \<Rightarrow> 'f Obj \<Rightarrow> string \<Rightarrow> nat \<Rightarrow> 'f Obj result" where
  "parseVertexTextureLine pf obj line lineNumber =
     (let parts = Split line CHR '' '' in
      if length parts < 3 then Err (InsufficientPoints VertexTextureD lineNumber)
      else
        thenDo (removeEmpty parts) (\<lambda>parts.
        thenDo (parseFloatAt pf parts 1 (InvalidFloat CoordX VertexTextureD lineNumber)) (\<lambda>x.
        thenDo (parseFloatAt pf parts 2 (InvalidFloat CoordY VertexTextureD lineNumber)) (\<lambda>y.
        Ok (obj\<lparr>textures := textures obj @ [\<lparr>Vertex2.X = x, Vertex2.Y = y\<rparr>]\<rparr>)))))"

text \<open>
  The three resolvers test the upper bound only, then index with \<^verbatim>\<open>id - 1\<close>
  (the parameter \<^verbatim>\<open>id\<close> is \<open>ident\<close> here).
\<close>

definition resolveVertexId :: "'f Obj \<Rightarrow> int \<Rightarrow> nat \<Rightarrow> 'f Vertex3 result" where
  "resolveVertexId obj ident lineNumber =
     (if ident > int (length (vertices obj)) then Err (UnableToResolve VertexD ident lineNumber)
      else index (vertices obj) (ident - 1))"

definition resolveVertexNormalId :: "'f Obj \<Rightarrow> int \<Rightarrow> nat \<Rightarrow> 'f Vertex3 result" where
  "resolveVertexNormalId obj ident lineNumber =
     (if ident > int (length (normals obj)) then Err (UnableToResolve VertexNormalD ident lineNumber)
      else index (normals obj) (ident - 1))"

definition resolveVertexTextureId :: "'f Obj \<Rightarrow> int \<Rightarrow> nat \<Rightarrow> 'f Vertex2 result" where
  "resolveVertexTextureId obj ident lineNumber =
     (if ident > int (length (textures obj)) then Err (UnableToResolve VertexTextureD ident lineNumber)
      else index (textures obj) (ident - 1))"

text \<open>
  parseFaceLine runs the same block for \<^verbatim>\<open>parts[1]\<close>, \<^verbatim>\<open>parts[2]\<close> and
  \<^verbatim>\<open>parts[3]\<close> in turn: split the group on "/", convert the sub-fields 0, 1 and 2 with
  Atoi, then resolve the three ids in the order vertex, texture, normal. The block is
  written once here, as \<open>parseFaceGroup\<close>; the object does not change between the blocks.
\<close>

definition parseFaceGroup ::
  "'f Obj \<Rightarrow> string \<Rightarrow> nat \<Rightarrow> ('f Vertex3 \<times> 'f Vertex2 \<times> 'f Vertex3) result" where
  "parseFaceGroup obj grp lineNumber =
     (let args = Split grp CHR ''/'' in
      thenDo (thenDo (index args 0) Atoi) (\<lambda>vertexId.
      thenDo (thenDo (index args 1) Atoi) (\<lambda>vertexTextureId.
      thenDo (thenDo (index args 2) Atoi) (\<lambda>vertexNormalId.
      thenDo (resolveVertexId obj vertexId lineNumber) (\<lambda>vertex.
      thenDo (resolveVertexTextureId obj vertexTextureId lineNumber) (\<lambda>vertexTexture.
      thenDo (resolveVertexNormalId obj vertexNormalId lineNumber) (\<lambda>vertexNormal.
      Ok (vertex, vertexTexture, vertexNormal))))))))"

definition parseFaceLine :: "'f Obj \<Rightarrow> string \<Rightarrow> nat \<Rightarrow> 'f Obj result" where
  "parseFaceLine obj line lineNumber =
     thenDo (removeEmpty (Split line CHR '' '')) (\<lambda>parts.
       if length parts < 4 then Err (InsufficientPoints FaceD lineNumber)
       else
         thenDo (index parts 1) (\<lambda>group1.
         thenDo (parseFaceGroup obj group1 lineNumber) (\<lambda>(v1, t1, n1).
         thenDo (index parts 2) (\<lambda>group2.
         thenDo (parseFaceGroup obj group2 lineNumber) (\<lambda>(v2, t2, n2).
         thenDo (index parts 3) (\<lambda>group3.
         thenDo (parseFaceGroup obj group3 lineNumber) (\<lambda>(v3, t3, n3).
         Ok (obj\<lparr>Faces := Faces obj @
                   [\<lparr>Vertices = (v1, v2, v3), Textures = (t1, t2, t3),
                     Normals = (n1, n2, n3)\<rparr>]\<rparr>))))))))"

subsection \<open>The load operation\<close>

text \<open>
  The body of the scanner loop for one line, after \<^verbatim>\<open>lineNumber++\<close>: an empty line is
  skipped, otherwise the line is split on " " and the switch looks at \<^verbatim>\<open>parts[0]\<close>
  as Split returned it; the switch has no default case.
\<close>

definition processLine ::
  "(string \<Rightarrow> 'f option) \<Rightarrow> 'f Obj \<Rightarrow> string \<Rightarrow> nat \<Rightarrow> 'f Obj result" where
  "processLine pf obj line lineNumber =
     (if line = [] then Ok obj
      else
        thenDo (index (Split line CHR '' '') 0) (\<lambda>directive.
          if directive = ''v'' then parseVertexLine pf obj line lineNumber
          else if directive = ''vn'' then parseVertexNormalLine pf obj line lineNumber
          else if directive = ''vt'' then parseVertexTextureLine pf obj line lineNumber
          else if directive = ''f'' then parseFaceLine obj line lineNumber
          else Ok obj))"

text \<open>
  The scanner loop over the lines that \<^verbatim>\<open>scanner.Text()\<close> yields, in order;
  \<open>lineNumber\<close> is the counter before the line is read. The first error or panic ends it.
\<close>

fun scanLines ::
  "(string \<Rightarrow> 'f option) \<Rightarrow> 'f Obj \<Rightarrow> nat \<Rightarrow> string list \<Rightarrow> 'f Obj result" where
  "scanLines pf obj lineNumber [] = Ok obj"
| "scanLines pf obj lineNumber (line # rest) =
     thenDo (processLine pf obj line (lineNumber + 1)) (\<lambda>obj'.
       scanLines pf obj' (lineNumber + 1) rest)"

text \<open>
  \<^verbatim>\<open>loadObjFromFile\<close> on a file that \<^verbatim>\<open>os.Open\<close> opens and the scanner reads to
  its end (\<^verbatim>\<open>scanner.Err()\<close> is nil), given as the list of its lines: the loop from
  an empty object and line number 0, then the cleanup of the three lists.
  \<^verbatim>\<open>return nil, err\<close> is \<open>Err\<close>: no object is returned.
\<close>

definition emptyObj :: "'f Obj" where
  "emptyObj = \<lparr>Faces = [], vertices = [], textures = [], normals = []\<rparr>"

definition loadObjFromFile :: "(string \<Rightarrow> 'f option) \<Rightarrow> string list \<Rightarrow> 'f Obj result" where
  "loadObjFromFile pf lines =
     thenDo (scanLines pf emptyObj 0 lines) (\<lambda>obj.
       Ok (obj\<lparr>vertices := [], normals := [], textures := []\<rparr>))"

text \<open>
  A float parser for closed examples: the decimal integer literals, read as Atoi reads
  them. \<^verbatim>\<open>ParseFloat\<close> accepts each of them, with the same number as its value when
  that number is a float (as 0, 1 and 2 are).
\<close>

definition integerLiteral :: "string \<Rightarrow> int option" where
  "integerLiteral s = (case Atoi s of Ok n \<Rightarrow> Some n | _ \<Rightarrow> None)"

text \<open>The line number that an error message contains, if it contains one.\<close>

fun errorLine :: "error \<Rightarrow> nat option" where
  "errorLine (InsufficientPoints d n) = Some n"
| "errorLine (InvalidFloat c d n) = Some n"
| "errorLine (UnableToResolve d i n) = Some n"
| "errorLine (NumError s) = None"

section \<open>The specification's reading of a line\<close>

text \<open>
  The specification describes a line by its tokens: the line split on single spaces, with
  the empty pieces discarded. The directive of a line is its first token, and a line with
  no token has none. The definitions of this section follow the specification's words,
  one at a time; the loader is compared with them below.
\<close>

definition spec_tokens :: "string \<Rightarrow> string list" where
  "spec_tokens line = filter (\<lambda>t. t \<noteq> []) (Split line CHR '' '')"

definition spec_directive :: "string \<Rightarrow> string option" where
  "spec_directive line = (case spec_tokens line of [] \<Rightarrow> None | t # _ \<Rightarrow> Some t)"

definition recognized :: "string option \<Rightarrow> bool" where
  "recognized d = (d = Some ''v'' \<or> d = Some ''vn'' \<or> d = Some ''vt'' \<or> d = Some ''f'')"

definition spec_faceCount :: "string list \<Rightarrow> nat" where
  "spec_faceCount lines = length (filter (\<lambda>l. spec_directive l = Some ''f'') lines)"

text \<open>
  A line whose tokens are separated by exactly one space each, with no space before the
  first or after the last: splitting it yields no empty piece.
\<close>

definition singleSpaced :: "string \<Rightarrow> bool" where
  "singleSpaced line = ([] \<notin> set (Split line CHR '' ''))"

text \<open>
  A vertex group is a full triplet when it has at least three sub-fields between "/" and
  the first three are integers; it resolves against the lists when each index lies in
  \<open>[1, length]\<close> of its list, to the entries at those 1-based positions.
\<close>

definition spec_triplet :: "string \<Rightarrow> (int \<times> int \<times> int) option" where
  "spec_triplet g =
     (case Split g CHR ''/'' of
        a # b # c # _ \<Rightarrow>
          (case (Atoi a, Atoi b, Atoi c) of
             (Ok i, Ok j, Ok k) \<Rightarrow> Some (i, j, k)
           | _ \<Rightarrow> None)
      | _ \<Rightarrow> None)"

definition inBounds :: "int \<Rightarrow> 'a list \<Rightarrow> bool" where
  "inBounds i xs = (1 \<le> i \<and> i \<le> int (length xs))"

definition spec_corner ::
  "'f Obj \<Rightarrow> string \<Rightarrow> ('f Vertex3 \<times> 'f Vertex2 \<times> 'f Vertex3) option" where
  "spec_corner obj g =
     (case spec_triplet g of
        None \<Rightarrow> None
      | Some (i, j, k) \<Rightarrow>
          if inBounds i (vertices obj) \<and> inBounds j (textures obj) \<and> inBounds k (normals obj)
          then Some (vertices obj ! nat (i - 1), textures obj ! nat (j - 1),
                     normals obj ! nat (k - 1))
          else None)"

text \<open>
  What a valid line adds to the mesh, by the specification: a position, a normal, a texture
  coordinate, a face, or nothing. \<open>None\<close> is a line that is not valid: a recognized
  directive with too few tokens, a number that does not parse, a vertex group that is not
  a full triplet, or an index out of bounds.
\<close>

datatype 'f entry =
    Position "'f Vertex3"
  | Normal "'f Vertex3"
  | TexCoord "'f Vertex2"
  | Triangle "'f Face"
  | Ignored

definition spec_vector3 :: "(string \<Rightarrow> 'f option) \<Rightarrow> string list \<Rightarrow> 'f Vertex3 option" where
  "spec_vector3 pf args =
     (case args of
        a # b # c # _ \<Rightarrow>
          (case (pf a, pf b, pf c) of
             (Some x, Some y, Some z) \<Rightarrow> Some \<lparr>Vertex3.X = x, Vertex3.Y = y, Vertex3.Z = z\<rparr>
           | _ \<Rightarrow> None)
      | _ \<Rightarrow> None)"

definition spec_vector2 :: "(string \<Rightarrow> 'f option) \<Rightarrow> string list \<Rightarrow> 'f Vertex2 option" where
  "spec_vector2 pf args =
     (case args of
        a # b # _ \<Rightarrow>
          (case (pf a, pf b) of
             (Some x, Some y) \<Rightarrow> Some \<lparr>Vertex2.X = x, Vertex2.Y = y\<rparr>
           | _ \<Rightarrow> None)
      | _ \<Rightarrow> None)"

definition spec_face :: "'f Obj \<Rightarrow> string list \<Rightarrow> 'f Face option" where
  "spec_face obj args =
     (case args of
        g1 # g2 # g3 # _ \<Rightarrow>
          (case (spec_corner obj g1, spec_corner obj g2, spec_corner obj g3) of
             (Some (v1, t1, n1), Some (v2, t2, n2), Some (v3, t3, n3)) \<Rightarrow>
               Some \<lparr>Vertices = (v1, v2, v3), Textures = (t1, t2, t3), Normals = (n1, n2, n3)\<rparr>
           | _ \<Rightarrow> None)
      | _ \<Rightarrow> None)"

definition spec_line :: "(string \<Rightarrow> 'f option) \<Rightarrow> 'f Obj \<Rightarrow> string \<Rightarrow> 'f entry option" where
  "spec_line pf obj line =
     (case spec_tokens line of
        [] \<Rightarrow> Some Ignored
      | t # args \<Rightarrow>
          if t = ''v'' then map_option Position (spec_vector3 pf args)
          else if t = ''vn'' then map_option Normal (spec_vector3 pf args)
          else if t = ''vt'' then map_option TexCoord (spec_vector2 pf args)
          else if t = ''f'' then map_option Triangle (spec_face obj args)
          else Some Ignored)"

fun addEntry :: "'f Obj \<Rightarrow> 'f entry \<Rightarrow> 'f Obj" where
  "addEntry obj (Position v) = obj\<lparr>vertices := vertices obj @ [v]\<rparr>"
| "addEntry obj (Normal v) = obj\<lparr>normals := normals obj @ [v]\<rparr>"
| "addEntry obj (TexCoord t) = obj\<lparr>textures := textures obj @ [t]\<rparr>"
| "addEntry obj (Triangle f) = obj\<lparr>Faces := Faces obj @ [f]\<rparr>"
| "addEntry obj Ignored = obj"

text \<open>
  The mesh that valid lines build, line by line in order; \<open>None\<close> when a line is not
  valid against the lists accumulated before it. \<open>spec_load\<close> is the faces of a valid
  input.
\<close>

fun spec_run :: "(string \<Rightarrow> 'f option) \<Rightarrow> 'f Obj \<Rightarrow> string list \<Rightarrow> 'f Obj option" where
  "spec_run pf obj [] = Some obj"
| "spec_run pf obj (line # rest) =
     (case spec_line pf obj line of
        None \<Rightarrow> None
      | Some e \<Rightarrow> spec_run pf (addEntry obj e) rest)"

definition spec_load :: "(string \<Rightarrow> 'f option) \<Rightarrow> string list \<Rightarrow> 'f Face list option" where
  "spec_load pf lines = map_option Faces (spec_run pf emptyObj lines)"

text \<open>
  The index triplets of the first three vertex groups of a face line: defined when the
  directive is \<^verbatim>\<open>f\<close>, at least three groups follow it, and each of the first three
  is a full triplet. Further groups are not looked at.
\<close>

definition spec_faceTriplets :: "string \<Rightarrow> (int \<times> int \<times> int) list option" where
  "spec_faceTriplets line =
     (case spec_tokens line of
        t # g1 # g2 # g3 # _ \<Rightarrow>
          if t = ''f'' then
            (case (spec_triplet g1, spec_triplet g2, spec_triplet g3) of
               (Some a, Some b, Some c) \<Rightarrow> Some [a, b, c]
             | _ \<Rightarrow> None)
          else None
      | _ \<Rightarrow> None)"

text \<open>
  A triplet is positive when its three indices are at least 1, and exceeds the lists when
  one of its indices is greater than the length of the list it refers to. \<open>listLength\<close>
  is the length of the list that an unresolved-reference error names.
\<close>

definition positive :: "int \<times> int \<times> int \<Rightarrow> bool" where
  "positive t = (case t of (i, j, k) \<Rightarrow> 1 \<le> i \<and> 1 \<le> j \<and> 1 \<le> k)"

definition exceeds :: "'f Obj \<Rightarrow> int \<times> int \<times> int \<Rightarrow> bool" where
  "exceeds obj t =
     (case t of (i, j, k) \<Rightarrow>
        i > int (length (vertices obj)) \<or> j > int (length (textures obj)) \<or>
        k > int (length (normals obj)))"

fun listLength :: "'f Obj \<Rightarrow> directive \<Rightarrow> nat" where
  "listLength obj VertexD = length (vertices obj)"
| "listLength obj VertexTextureD = length (textures obj)"
| "listLength obj VertexNormalD = length (normals obj)"
| "listLength obj FaceD = length (Faces obj)"

section \<open>Splitting and the removal loop\<close>

lemma Split_not_Nil: "Split s sep \<noteq> []"
  by (induction s) (auto split: list.splits)

lemma hd_Split: "hd (Split s sep) = takeWhile (\<lambda>c. c \<noteq> sep) s"
  using Split_not_Nil [of _ sep] by (induction s) (auto split: list.splits)

lemma index_0_Split: "index (Split s sep) 0 = Ok (takeWhile (\<lambda>c. c \<noteq> sep) s)"
  using Split_not_Nil [of s sep] hd_Split [of s sep]
  by (cases "Split s sep") (auto simp: index_def)

text \<open>Where no part is empty, the loop removes nothing and cannot panic.\<close>

lemma removeEmptyFrom_no_empty:
  "\<forall>i. k \<le> i \<and> i < n \<longrightarrow> arr ! i \<noteq> [] \<Longrightarrow> removeEmptyFrom n k arr len = Ok (take len arr)"
proof (induction "n - k" arbitrary: k)
  case 0
  then show ?case by simp
next
  case (Suc d)
  then have "k < n" "arr ! k \<noteq> []" by auto
  moreover have "removeEmptyFrom n (k + 1) arr len = Ok (take len arr)"
    using Suc by auto
  ultimately show ?case by simp
qed

lemma removeEmpty_no_empty: "[] \<notin> set parts \<Longrightarrow> removeEmpty parts = Ok parts"
  unfolding removeEmpty_def
  by (subst removeEmptyFrom_no_empty) (auto simp: in_set_conv_nth)

lemma index_Cons_nat:
  "index (x # xs) 0 = Ok x"
  "index (x # y # xs) 1 = Ok y"
  "index (x # y # z # xs) 2 = Ok z"
  "index (x # y # z # w # xs) 3 = Ok w"
  by (simp_all add: index_def)

lemma index_not_Err: "index xs i \<noteq> Err e"
  by (simp add: index_def)

lemma thenDo_Err_iff:
  "thenDo m f = Err e \<longleftrightarrow> m = Err e \<or> (\<exists>x. m = Ok x \<and> f x = Err e)"
  by (cases m) auto

text \<open>The loop ends in a list or in a panic, never in an error value.\<close>

lemma removeEmptyFrom_not_Err: "removeEmptyFrom n k arr len \<noteq> Err e"
proof (induction n k arr len rule: removeEmptyFrom.induct)
  case (1 n k arr len)
  then show ?case
    by (subst removeEmptyFrom.simps) (simp del: removeEmptyFrom.simps)
qed

lemma removeEmpty_not_Err: "removeEmpty parts \<noteq> Err e"
  by (simp add: removeEmpty_def removeEmptyFrom_not_Err del: removeEmptyFrom.simps)

section \<open>Dispatch\<close>

text \<open>
  The piece that the switch inspects is the text of the line before its first space. When
  that text is not empty it is also the first token of the line.
\<close>

lemma processLine_first_piece:
  "processLine pf obj line n =
     (let d = takeWhile (\<lambda>c. c \<noteq> CHR '' '') line in
      if d = ''v'' then parseVertexLine pf obj line n
      else if d = ''vn'' then parseVertexNormalLine pf obj line n
      else if d = ''vt'' then parseVertexTextureLine pf obj line n
      else if d = ''f'' then parseFaceLine obj line n
      else Ok obj)"
  by (cases line) (simp_all add: processLine_def index_0_Split Let_def del: Split.simps)

lemma spec_directive_first_piece:
  assumes "takeWhile (\<lambda>c. c \<noteq> CHR '' '') line \<noteq> []"
  shows "spec_directive line = Some (takeWhile (\<lambda>c. c \<noteq> CHR '' '') line)"
proof -
  obtain p ps where "Split line CHR '' '' = p # ps"
    using Split_not_Nil [of line "CHR '' ''"] by (cases "Split line CHR '' ''") auto
  moreover from this have "p = takeWhile (\<lambda>c. c \<noteq> CHR '' '') line"
    using hd_Split [of line "CHR '' ''"] by simp
  ultimately show ?thesis
    using assms by (simp add: spec_directive_def spec_tokens_def)
qed

lemma processLine_unrecognized:
  assumes "\<not> recognized (spec_directive line)"
  shows "processLine pf obj line n = Ok obj"
proof (cases "takeWhile (\<lambda>c. c \<noteq> CHR '' '') line = []")
  case True
  then show ?thesis by (simp add: processLine_first_piece)
next
  case False
  from assms show ?thesis
    using spec_directive_first_piece [OF False]
    by (simp add: processLine_first_piece recognized_def)
qed

section \<open>Inputs on which the loader panics\<close>

text \<open>
  C2. A face line with an index sub-field of value 0 or less should make the load fail
  with an error that says the reference cannot be resolved. The resolvers compare the id
  with the length of the list only, so for every id \<open>- k\<close> at or below zero and every
  state of the lists each of them indexes its list at a negative position, which is a
  run-time panic; loading the single line \<^verbatim>\<open>f 0/0/0 0/0/0 0/0/0\<close> panics.
\<close>

theorem index_below_one_panics:
  "resolveVertexId (obj :: 'f Obj) (- int k) n = Panic IndexOutOfRange \<and>
   resolveVertexTextureId obj (- int k) n = Panic IndexOutOfRange \<and>
   resolveVertexNormalId obj (- int k) n = Panic IndexOutOfRange \<and>
   loadObjFromFile (pf :: string \<Rightarrow> 'f option) [''f 0/0/0 0/0/0 0/0/0'']
     = Panic IndexOutOfRange"
proof -
  have parts: "removeEmpty (Split ''f 0/0/0 0/0/0 0/0/0'' CHR '' '')
                 = Ok [''f'', ''0/0/0'', ''0/0/0'', ''0/0/0'']"
    by code_simp
  have args: "Split ''0/0/0'' CHR ''/'' = [''0'', ''0'', ''0'']"
    by code_simp
  have zero: "Atoi ''0'' = Ok 0"
    by code_simp
  have "parseFaceGroup (emptyObj :: 'f Obj) ''0/0/0'' 1 = Panic IndexOutOfRange"
    by (simp add: parseFaceGroup_def args zero index_def resolveVertexId_def emptyObj_def)
  then have "parseFaceLine (emptyObj :: 'f Obj) ''f 0/0/0 0/0/0 0/0/0'' 1
               = Panic IndexOutOfRange"
    by (simp add: parseFaceLine_def parts index_def del: Split.simps)
  then have "loadObjFromFile pf [''f 0/0/0 0/0/0 0/0/0''] = Panic IndexOutOfRange"
    by (simp add: loadObjFromFile_def processLine_def index_0_Split del: Split.simps)
  then show ?thesis
    by (simp add: resolveVertexId_def resolveVertexTextureId_def resolveVertexNormalId_def
        index_def)
qed

text \<open>
  C4. A face line whose vertex groups lack the "/"-separated sub-fields should make the
  load fail with an error. On \<^verbatim>\<open>f 1 2 3\<close> the first group splits into the single
  sub-field "1"; the code converts it and then reads sub-field 1 of a list of length
  one, which is a run-time panic.
\<close>

theorem abbreviated_face_panics:
  "loadObjFromFile (pf :: string \<Rightarrow> 'f option) [''f 1 2 3''] = Panic IndexOutOfRange"
proof -
  have parts: "removeEmpty (Split ''f 1 2 3'' CHR '' '') = Ok [''f'', ''1'', ''2'', ''3'']"
    by code_simp
  have args: "Split ''1'' CHR ''/'' = [''1'']"
    by code_simp
  have one: "Atoi ''1'' = Ok 1"
    by code_simp
  have "parseFaceGroup (emptyObj :: 'f Obj) ''1'' 1 = Panic IndexOutOfRange"
    by (simp add: parseFaceGroup_def args one index_def)
  then have "parseFaceLine (emptyObj :: 'f Obj) ''f 1 2 3'' 1 = Panic IndexOutOfRange"
    by (simp add: parseFaceLine_def parts index_def del: Split.simps)
  then show ?thesis
    by (simp add: loadObjFromFile_def processLine_def index_0_Split del: Split.simps)
qed

text \<open>
  C5. A \<^verbatim>\<open>v\<close>, \<^verbatim>\<open>vn\<close> or \<^verbatim>\<open>vt\<close> line with fewer tokens than required, once the
  empty tokens are removed, should fail with the error for too few points and never read
  past the end of the tokens. The three handlers count the parts before they remove the
  empty ones: \<^verbatim>\<open>v  1 2\<close> (two spaces) has four parts and three tokens, passes the
  count, and the read of \<^verbatim>\<open>parts[3]\<close> panics; likewise for \<^verbatim>\<open>vn\<close> and \<^verbatim>\<open>vt\<close>.
\<close>

theorem short_vertex_line_panics:
  "loadObjFromFile integerLiteral [''v  1 2''] = Panic IndexOutOfRange \<and>
   loadObjFromFile integerLiteral [''vn  1 2''] = Panic IndexOutOfRange \<and>
   loadObjFromFile integerLiteral [''vt  1''] = Panic IndexOutOfRange \<and>
   spec_tokens ''v  1 2'' = [''v'', ''1'', ''2''] \<and>
   spec_tokens ''vn  1 2'' = [''vn'', ''1'', ''2''] \<and>
   spec_tokens ''vt  1'' = [''vt'', ''1'']"
  by code_simp

section \<open>Lines that are ignored, and how a line is classified\<close>

text \<open>
  C9. Processing a blank line, or a line whose directive token is not one of \<^verbatim>\<open>v\<close>,
  \<^verbatim>\<open>vn\<close>, \<^verbatim>\<open>vt\<close>, \<^verbatim>\<open>f\<close> (a comment, \<^verbatim>\<open>o\<close>, \<^verbatim>\<open>g\<close>, \<^verbatim>\<open>s\<close>,
  \<^verbatim>\<open>mtllib\<close>, or no token at all), returns the object as it was: the faces and the
  three lists keep their contents, and there is no error and no panic. The directive
  token is the first token once the empty ones are discarded.
\<close>

theorem unrecognized_line_ignored:
  assumes "line = [] \<or> \<not> recognized (spec_directive line)"
  shows "processLine pf obj line n = Ok obj"
proof (cases "line = []")
  case True
  then show ?thesis by (simp add: processLine_def)
next
  case False
  with assms show ?thesis by (simp add: processLine_unrecognized)
qed

theorem unrecognized_line_ignored_witness:
  "\<not> recognized (spec_directive ''mtllib  cube.mtl'') \<and>
   processLine integerLiteral
     \<lparr>Faces = [], vertices = [\<lparr>Vertex3.X = 1, Vertex3.Y = 2, Vertex3.Z = 3\<rparr>],
      textures = [], normals = []\<rparr> ''mtllib  cube.mtl'' 7
   = Ok \<lparr>Faces = [], vertices = [\<lparr>Vertex3.X = 1, Vertex3.Y = 2, Vertex3.Z = 3\<rparr>],
         textures = [], normals = []\<rparr> \<and>
   processLine integerLiteral
     \<lparr>Faces = [], vertices = [\<lparr>Vertex3.X = 1, Vertex3.Y = 2, Vertex3.Z = 3\<rparr>],
      textures = [], normals = []\<rparr> [] 8
   = Ok \<lparr>Faces = [], vertices = [\<lparr>Vertex3.X = 1, Vertex3.Y = 2, Vertex3.Z = 3\<rparr>],
         textures = [], normals = []\<rparr>"
proof -
  have h: "\<not> recognized (spec_directive ''mtllib  cube.mtl'')"
    by code_simp
  let ?obj = "\<lparr>Faces = [], vertices = [\<lparr>Vertex3.X = 1, Vertex3.Y = 2, Vertex3.Z = 3\<rparr>],
                textures = [], normals = []\<rparr> :: int Obj"
  have "processLine integerLiteral ?obj ''mtllib  cube.mtl'' 7 = Ok ?obj"
    using h by (intro unrecognized_line_ignored disjI2)
  moreover have "processLine integerLiteral ?obj [] 8 = Ok ?obj"
    by (intro unrecognized_line_ignored disjI1 refl)
  ultimately show ?thesis
    using h by simp
qed

text \<open>
  C6, as the specification states it, has the line classified by its first token after
  the empty tokens are discarded, so that leading spaces do not matter. The line
  \<^verbatim>\<open> v 1 2 3\<close>, with one space in front, has the directive token \<^verbatim>\<open>v\<close>, and the
  vertex handler would accept it and add the position (1, 2, 3); the loader does not
  call the handler and leaves the object as it was.
\<close>

theorem leading_space_counterexample:
  "spec_directive '' v 1 2 3'' = Some ''v'' \<and>
   processLine integerLiteral emptyObj '' v 1 2 3'' 1 = Ok emptyObj \<and>
   parseVertexLine integerLiteral emptyObj '' v 1 2 3'' 1 =
     Ok \<lparr>Faces = [], vertices = [\<lparr>Vertex3.X = 1, Vertex3.Y = 2, Vertex3.Z = 3\<rparr>],
         textures = [], normals = []\<rparr> \<and>
   processLine integerLiteral emptyObj '' v 1 2 3'' 1 \<noteq>
     parseVertexLine integerLiteral emptyObj '' v 1 2 3'' 1"
  by code_simp

text \<open>
  C6, amended. For every input line, classification splits the line on single spaces and
  inspects the first piece as it is, without discarding empty pieces: this piece is the
  text before the first space. The pieces \<^verbatim>\<open>v\<close>, \<^verbatim>\<open>vn\<close>, \<^verbatim>\<open>vt\<close> and \<^verbatim>\<open>f\<close>
  dispatch to their handlers, whatever spaces follow; any other first piece is ignored
  silently, with no error and no change of state. For a line that does not begin with a
  space the piece is the directive token of the line; an empty line and a line that
  begins with a space are ignored, whatever their tokens.
\<close>

theorem dispatch_on_first_piece:
  "processLine pf obj line n =
     (let d = takeWhile (\<lambda>c. c \<noteq> CHR '' '') line in
      if d = ''v'' then parseVertexLine pf obj line n
      else if d = ''vn'' then parseVertexNormalLine pf obj line n
      else if d = ''vt'' then parseVertexTextureLine pf obj line n
      else if d = ''f'' then parseFaceLine obj line n
      else Ok obj)
   \<and> (line \<noteq> [] \<and> hd line \<noteq> CHR '' '' \<longrightarrow>
        spec_directive line = Some (takeWhile (\<lambda>c. c \<noteq> CHR '' '') line))
   \<and> (line = [] \<or> hd line = CHR '' '' \<longrightarrow> processLine pf obj line n = Ok obj)"
proof (intro conjI impI)
  show "processLine pf obj line n =
     (let d = takeWhile (\<lambda>c. c \<noteq> CHR '' '') line in
      if d = ''v'' then parseVertexLine pf obj line n
      else if d = ''vn'' then parseVertexNormalLine pf obj line n
      else if d = ''vt'' then parseVertexTextureLine pf obj line n
      else if d = ''f'' then parseFaceLine obj line n
      else Ok obj)"
    by (rule processLine_first_piece)
next
  assume "line \<noteq> [] \<and> hd line \<noteq> CHR '' ''"
  then have "takeWhile (\<lambda>c. c \<noteq> CHR '' '') line \<noteq> []"
    by (cases line) auto
  then show "spec_directive line = Some (takeWhile (\<lambda>c. c \<noteq> CHR '' '') line)"
    by (rule spec_directive_first_piece)
next
  assume "line = [] \<or> hd line = CHR '' ''"
  then have "takeWhile (\<lambda>c. c \<noteq> CHR '' '') line = []"
    by (cases line) auto
  then show "processLine pf obj line n = Ok obj"
    by (simp add: processLine_first_piece)
qed

theorem dispatch_on_first_piece_witness:
  "hd ''v  1 2 3'' \<noteq> CHR '' '' \<and>
   spec_directive ''v  1 2 3'' = Some ''v'' \<and>
   processLine integerLiteral emptyObj ''v  1 2 3'' 1 =
     Ok \<lparr>Faces = [], vertices = [\<lparr>Vertex3.X = 1, Vertex3.Y = 2, Vertex3.Z = 3\<rparr>],
         textures = [], normals = []\<rparr> \<and>
   hd '' f 1/1/1 1/1/1 1/1/1'' = CHR '' '' \<and>
   processLine integerLiteral emptyObj '' f 1/1/1 1/1/1 1/1/1'' 2 = Ok emptyObj"
proof -
  have a: "''v  1 2 3'' \<noteq> [] \<and> hd ''v  1 2 3'' \<noteq> CHR '' ''"
    by simp
  have b: "'' f 1/1/1 1/1/1 1/1/1'' = [] \<or> hd '' f 1/1/1 1/1/1 1/1/1'' = CHR '' ''"
    by simp
  have v: "parseVertexLine integerLiteral emptyObj ''v  1 2 3'' 1 =
     Ok \<lparr>Faces = [], vertices = [\<lparr>Vertex3.X = 1, Vertex3.Y = 2, Vertex3.Z = 3\<rparr>],
         textures = [], normals = []\<rparr>"
    by code_simp
  have t: "takeWhile (\<lambda>c. c \<noteq> CHR '' '') ''v  1 2 3'' = ''v''"
    by simp
  note first = dispatch_on_first_piece [of integerLiteral emptyObj "''v  1 2 3''" 1]
  note second = dispatch_on_first_piece [of integerLiteral emptyObj "'' f 1/1/1 1/1/1 1/1/1''" 2]
  from first a have "spec_directive ''v  1 2 3'' = Some ''v''"
    unfolding t by blast
  moreover from first have "processLine integerLiteral emptyObj ''v  1 2 3'' 1 =
      parseVertexLine integerLiteral emptyObj ''v  1 2 3'' 1"
    unfolding t Let_def by simp
  moreover from second b
  have "processLine integerLiteral emptyObj '' f 1/1/1 1/1/1 1/1/1'' 2 = Ok emptyObj"
    by blast
  ultimately show ?thesis
    using v by simp
qed

section \<open>Errors: the line they name, and the end of the scan\<close>

text \<open>
  An error of a handler names the line number the handler was called with, except the
  error of Atoi, which parseFaceLine passes on unchanged.
\<close>

lemma parseFloatAt_Err: "parseFloatAt pf parts i e0 = Err e \<Longrightarrow> e = e0"
  by (auto simp: parseFloatAt_def thenDo_Err_iff index_not_Err split: option.splits)

lemma Atoi_Err: "Atoi s = Err e \<Longrightarrow> e = NumError s"
  by (auto simp: Atoi_def Let_def split: if_splits)

lemma parseVertexLine_Err:
  "parseVertexLine pf obj line n = Err e \<Longrightarrow> errorLine e = Some n"
  by (auto simp: parseVertexLine_def Let_def thenDo_Err_iff removeEmpty_not_Err
      split: if_splits dest!: parseFloatAt_Err)

lemma parseVertexNormalLine_Err:
  "parseVertexNormalLine pf obj line n = Err e \<Longrightarrow> errorLine e = Some n"
  by (auto simp: parseVertexNormalLine_def Let_def thenDo_Err_iff removeEmpty_not_Err
      split: if_splits dest!: parseFloatAt_Err)

lemma parseVertexTextureLine_Err:
  "parseVertexTextureLine pf obj line n = Err e \<Longrightarrow> errorLine e = Some n"
  by (auto simp: parseVertexTextureLine_def Let_def thenDo_Err_iff removeEmpty_not_Err
      split: if_splits dest!: parseFloatAt_Err)

lemma resolve_Err:
  "resolveVertexId obj i n = Err e \<Longrightarrow> e = UnableToResolve VertexD i n"
  "resolveVertexTextureId obj i n = Err e \<Longrightarrow> e = UnableToResolve VertexTextureD i n"
  "resolveVertexNormalId obj i n = Err e \<Longrightarrow> e = UnableToResolve VertexNormalD i n"
  by (auto simp: resolveVertexId_def resolveVertexTextureId_def resolveVertexNormalId_def
      index_not_Err split: if_splits)

lemma parseFaceGroup_Err:
  "parseFaceGroup obj g n = Err e \<Longrightarrow> (\<exists>s. e = NumError s) \<or> errorLine e = Some n"
  by (auto simp: parseFaceGroup_def Let_def thenDo_Err_iff index_not_Err
      dest!: resolve_Err Atoi_Err)

lemma parseFaceLine_Err:
  "parseFaceLine obj line n = Err e \<Longrightarrow> (\<exists>s. e = NumError s) \<or> errorLine e = Some n"
  by (auto simp: parseFaceLine_def thenDo_Err_iff removeEmpty_not_Err index_not_Err
      split: if_splits dest!: parseFaceGroup_Err simp del: Split.simps)

lemma processLine_Err:
  "processLine pf obj line n = Err e \<Longrightarrow> (\<exists>s. e = NumError s) \<or> errorLine e = Some n"
  by (auto simp: processLine_def thenDo_Err_iff index_not_Err
      split: if_splits
      dest: parseVertexLine_Err parseVertexNormalLine_Err parseVertexTextureLine_Err
        parseFaceLine_Err simp del: Split.simps)

text \<open>The scan of a list of lines is the scan of a prefix followed by the scan of the rest.\<close>

lemma scanLines_append:
  "scanLines pf obj k (xs @ ys) =
     thenDo (scanLines pf obj k xs) (\<lambda>obj'. scanLines pf obj' (k + length xs) ys)"
proof (induction xs arbitrary: obj k)
  case Nil
  then show ?case by simp
next
  case (Cons x xs)
  show ?case
    by (cases "processLine pf obj x (k + 1)") (simp_all add: Cons)
qed

text \<open>
  A scan that ends in an error has a line at some position \<open>i\<close> (from 0) before which
  every line was processed, and which produced the error when called with the number
  \<open>k + i + 1\<close>.
\<close>

lemma scanLines_Err:
  "scanLines pf obj k lines = Err e \<Longrightarrow>
     \<exists>i obj'. i < length lines \<and> scanLines pf obj k (take i lines) = Ok obj' \<and>
       processLine pf obj' (lines ! i) (k + i + 1) = Err e"
proof (induction lines arbitrary: obj k)
  case Nil
  then show ?case by simp
next
  case (Cons l ls)
  show ?case
  proof (cases "processLine pf obj l (k + 1)")
    case (Ok obj1)
    with Cons.prems have "scanLines pf obj1 (k + 1) ls = Err e" by simp
    from Cons.IH [OF this] obtain i obj' where
      i: "i < length ls" "scanLines pf obj1 (k + 1) (take i ls) = Ok obj'"
         "processLine pf obj' (ls ! i) (k + 1 + i + 1) = Err e"
      by blast
    have "Suc i < length (l # ls)" using i(1) by simp
    moreover have "scanLines pf obj k (take (Suc i) (l # ls)) = Ok obj'"
      using Ok i(2) by simp
    moreover have "processLine pf obj' ((l # ls) ! Suc i) (k + Suc i + 1) = Err e"
      using i(3) by simp
    ultimately show ?thesis by blast
  next
    case (Err e')
    with Cons.prems have "e' = e" by simp
    then have "processLine pf obj ((l # ls) ! 0) (k + 0 + 1) = Err e" using Err by simp
    moreover have "scanLines pf obj k (take 0 (l # ls)) = Ok obj" by simp
    ultimately show ?thesis by blast
  next
    case (Panic p)
    with Cons.prems show ?thesis by simp
  qed
qed

text \<open>
  C10. The line counter is incremented for every line read, blank and ignored lines
  included, so the number in an error is the 1-based position of the offending line in
  the input: when the load fails with an error that names line \<open>n\<close>, the input has at
  least \<open>n\<close> lines, the first \<open>n - 1\<close> of them were processed without error, and it is
  the line at position \<open>n\<close> that produced the error.
\<close>

theorem error_line_is_physical_position:
  assumes "loadObjFromFile pf lines = Err e" and "errorLine e = Some n"
  shows "1 \<le> n \<and> n \<le> length lines \<and>
         (\<exists>obj. scanLines pf emptyObj 0 (take (n - 1) lines) = Ok obj \<and>
                processLine pf obj (lines ! (n - 1)) n = Err e)"
proof -
  from assms(1) have "scanLines pf emptyObj 0 lines = Err e"
    by (simp add: loadObjFromFile_def thenDo_Err_iff)
  from scanLines_Err [OF this] obtain i obj where
    i: "i < length lines" "scanLines pf emptyObj 0 (take i lines) = Ok obj"
       "processLine pf obj (lines ! i) (0 + i + 1) = Err e"
    by blast
  from processLine_Err [OF i(3)] assms(2) have "n = i + 1" by auto
  with i show ?thesis by auto
qed

theorem error_line_is_physical_position_witness:
  "loadObjFromFile integerLiteral
     ['''', ''# cube'', ''v 0 0 0'', ''o x'', ''v 1 x 0'', ''v 0 0 1'']
     = Err (InvalidFloat CoordY VertexD 5) \<and>
   errorLine (InvalidFloat CoordY VertexD 5) = Some 5 \<and>
   (\<exists>obj. scanLines integerLiteral emptyObj 0
            (take (5 - 1) ['''', ''# cube'', ''v 0 0 0'', ''o x'', ''v 1 x 0'', ''v 0 0 1''])
            = Ok obj \<and>
          processLine integerLiteral obj
            (['''', ''# cube'', ''v 0 0 0'', ''o x'', ''v 1 x 0'', ''v 0 0 1''] ! (5 - 1)) 5
            = Err (InvalidFloat CoordY VertexD 5))"
proof -
  have l: "loadObjFromFile integerLiteral
             ['''', ''# cube'', ''v 0 0 0'', ''o x'', ''v 1 x 0'', ''v 0 0 1'']
           = Err (InvalidFloat CoordY VertexD 5)"
    by code_simp
  have e: "errorLine (InvalidFloat CoordY VertexD 5) = Some 5"
    by simp
  show ?thesis
    using error_line_is_physical_position [OF l e] l e by blast
qed

text \<open>
  The scan stops at the first error: when the lines before a line are processed without
  error and that line produces an error, the load returns this error, whatever lines
  follow, and returns no object.
\<close>

lemma load_stops_at_first_error:
  assumes "scanLines pf emptyObj 0 before = Ok obj"
    and "processLine pf obj line (length before + 1) = Err e"
  shows "loadObjFromFile pf (before @ line # after) = Err e"
proof -
  have "scanLines pf emptyObj 0 (before @ line # after) = Err e"
    using assms by (simp add: scanLines_append)
  then show ?thesis
    by (simp add: loadObjFromFile_def)
qed

text \<open>
  C8. The parser is fail-fast, and the first error of a line should reach the caller with
  the number of that line. The vertex handlers build their errors with the line number,
  also where a number does not parse: on \<^verbatim>\<open>v 0 0 0\<close>, \<^verbatim>\<open>v a 0 0\<close> the load fails
  with the invalid-float error for line 2. parseFaceLine builds its other errors with
  the line number too, but returns the error of Atoi as it is: on \<^verbatim>\<open>v 0 0 0\<close>,
  \<^verbatim>\<open>f a/1/1 1/1/1 1/1/1\<close> the load fails on line 2 with the error of Atoi for the
  text "a", which names no line. The lines after the failing one are not processed in
  either case.
\<close>

theorem atoi_error_has_no_line_number:
  "loadObjFromFile integerLiteral [''v 0 0 0'', ''f a/1/1 1/1/1 1/1/1'', ''v 1 1 1'']
     = Err (NumError ''a'') \<and>
   errorLine (NumError ''a'') = None \<and>
   loadObjFromFile integerLiteral [''v 0 0 0'', ''v a 0 0'', ''v 1 1 1'']
     = Err (InvalidFloat CoordX VertexD 2) \<and>
   errorLine (InvalidFloat CoordX VertexD 2) = Some 2"
  by code_simp

section \<open>Valid lines: the loader against the specification\<close>

text \<open>
  On a single-spaced line the parts are the tokens, the removal loop leaves them as they
  are, and each handler does what the specification says of a valid line.
\<close>

lemma parseVertexLine_single:
  assumes "Split line CHR '' '' = t # args" and "[] \<notin> set (t # args)"
    and "spec_vector3 pf args = Some v"
  shows "parseVertexLine pf obj line n = Ok (obj\<lparr>vertices := vertices obj @ [v]\<rparr>)"
proof -
  from assms(3) obtain a b c more x y z where
    args: "args = a # b # c # more" and
    p: "pf a = Some x" "pf b = Some y" "pf c = Some z" and
    v: "v = \<lparr>Vertex3.X = x, Vertex3.Y = y, Vertex3.Z = z\<rparr>"
    by (auto simp: spec_vector3_def split: list.splits option.splits)
  have "removeEmpty (t # a # b # c # more) = Ok (t # a # b # c # more)"
    using assms(2) args by (intro removeEmpty_no_empty) simp
  then show ?thesis
    using assms(1) args p v
    by (simp add: parseVertexLine_def parseFloatAt_def index_Cons_nat del: Split.simps)
qed

lemma parseVertexNormalLine_single:
  assumes "Split line CHR '' '' = t # args" and "[] \<notin> set (t # args)"
    and "spec_vector3 pf args = Some v"
  shows "parseVertexNormalLine pf obj line n = Ok (obj\<lparr>normals := normals obj @ [v]\<rparr>)"
proof -
  from assms(3) obtain a b c more x y z where
    args: "args = a # b # c # more" and
    p: "pf a = Some x" "pf b = Some y" "pf c = Some z" and
    v: "v = \<lparr>Vertex3.X = x, Vertex3.Y = y, Vertex3.Z = z\<rparr>"
    by (auto simp: spec_vector3_def split: list.splits option.splits)
  have "removeEmpty (t # a # b # c # more) = Ok (t # a # b # c # more)"
    using assms(2) args by (intro removeEmpty_no_empty) simp
  then show ?thesis
    using assms(1) args p v
    by (simp add: parseVertexNormalLine_def parseFloatAt_def index_Cons_nat del: Split.simps)
qed

lemma parseVertexTextureLine_single:
  assumes "Split line CHR '' '' = t # args" and "[] \<notin> set (t # args)"
    and "spec_vector2 pf args = Some v"
  shows "parseVertexTextureLine pf obj line n = Ok (obj\<lparr>textures := textures obj @ [v]\<rparr>)"
proof -
  from assms(3) obtain a b more x y where
    args: "args = a # b # more" and
    p: "pf a = Some x" "pf b = Some y" and
    v: "v = \<lparr>Vertex2.X = x, Vertex2.Y = y\<rparr>"
    by (auto simp: spec_vector2_def split: list.splits option.splits)
  have "removeEmpty (t # a # b # more) = Ok (t # a # b # more)"
    using assms(2) args by (intro removeEmpty_no_empty) simp
  then show ?thesis
    using assms(1) args p v
    by (simp add: parseVertexTextureLine_def parseFloatAt_def index_Cons_nat del: Split.simps)
qed

text \<open>
  A full triplet of indices that are at least 1: the ids are resolved in the order
  vertex, texture, normal, and the first one beyond its list gives the error.
\<close>

lemma parseFaceGroup_triplet:
  assumes "spec_triplet g = Some (i, j, k)" and "1 \<le> i" "1 \<le> j" "1 \<le> k"
  shows "parseFaceGroup obj g n =
     (if i > int (length (vertices obj)) then Err (UnableToResolve VertexD i n)
      else if j > int (length (textures obj)) then Err (UnableToResolve VertexTextureD j n)
      else if k > int (length (normals obj)) then Err (UnableToResolve VertexNormalD k n)
      else Ok (vertices obj ! nat (i - 1), textures obj ! nat (j - 1),
               normals obj ! nat (k - 1)))"
proof -
  from assms(1) obtain a b c more where
    s: "Split g CHR ''/'' = a # b # c # more" "Atoi a = Ok i" "Atoi b = Ok j" "Atoi c = Ok k"
    by (auto simp: spec_triplet_def split: list.splits result.splits)
  show ?thesis
    using s assms(2-)
    by (simp add: parseFaceGroup_def index_Cons_nat resolveVertexId_def
        resolveVertexTextureId_def resolveVertexNormalId_def index_def del: Split.simps)
qed

lemma parseFaceGroup_corner:
  assumes "spec_corner obj g = Some c"
  shows "parseFaceGroup obj g n = Ok c"
proof -
  from assms obtain i j k where
    t: "spec_triplet g = Some (i, j, k)" and
    b: "inBounds i (vertices obj)" "inBounds j (textures obj)" "inBounds k (normals obj)" and
    c: "c = (vertices obj ! nat (i - 1), textures obj ! nat (j - 1), normals obj ! nat (k - 1))"
    by (auto simp: spec_corner_def split: option.splits if_splits)
  from b have "1 \<le> i" "1 \<le> j" "1 \<le> k"
    by (simp_all add: inBounds_def)
  from parseFaceGroup_triplet [OF t this, of obj n] b c show ?thesis
    by (simp add: inBounds_def)
qed

lemma parseFaceLine_single:
  assumes "Split line CHR '' '' = t # args" and "[] \<notin> set (t # args)"
    and "spec_face obj args = Some f"
  shows "parseFaceLine obj line n = Ok (obj\<lparr>Faces := Faces obj @ [f]\<rparr>)"
proof -
  from assms(3) obtain g1 g2 g3 more c1 c2 c3 where
    args: "args = g1 # g2 # g3 # more" and
    c: "spec_corner obj g1 = Some c1" "spec_corner obj g2 = Some c2"
       "spec_corner obj g3 = Some c3" and
    f: "f = \<lparr>Vertices = (fst c1, fst c2, fst c3),
              Textures = (fst (snd c1), fst (snd c2), fst (snd c3)),
              Normals = (snd (snd c1), snd (snd c2), snd (snd c3))\<rparr>"
    by (auto simp: spec_face_def split: list.splits option.splits)
  have "removeEmpty (t # g1 # g2 # g3 # more) = Ok (t # g1 # g2 # g3 # more)"
    using assms(2) args by (intro removeEmpty_no_empty) simp
  then show ?thesis
    using assms(1) args f c [THEN parseFaceGroup_corner, of n]
    by (simp add: parseFaceLine_def index_Cons_nat split_beta del: Split.simps)
qed

lemma spec_line_Ignored:
  "\<not> recognized (spec_directive line) \<Longrightarrow> spec_line pf obj line = Some Ignored"
  by (auto simp: spec_line_def spec_directive_def recognized_def split: list.splits)

text \<open>One line: the loader adds what the specification says the line adds.\<close>

lemma processLine_refines:
  assumes "singleSpaced line \<or> \<not> recognized (spec_directive line)"
    and "spec_line pf obj line = Some e"
  shows "processLine pf obj line n = Ok (addEntry obj e)"
proof (cases "recognized (spec_directive line)")
  case False
  then have "processLine pf obj line n = Ok obj"
    by (rule processLine_unrecognized)
  with False assms(2) show ?thesis
    by (simp add: spec_line_Ignored)
next
  case True
  with assms(1) have single: "singleSpaced line" by simp
  obtain t args where s: "Split line CHR '' '' = t # args"
    using Split_not_Nil [of line "CHR '' ''"] by (cases "Split line CHR '' ''") auto
  with single have ne: "[] \<notin> set (t # args)"
    by (simp add: singleSpaced_def)
  then have tok: "spec_tokens line = t # args"
    using s by (auto simp: spec_tokens_def filter_id_conv)
  have d: "index (Split line CHR '' '') 0 = Ok t"
    using s by (simp add: index_def)
  have nonempty: "line \<noteq> []"
    using single by (auto simp: singleSpaced_def)
  from True tok consider "t = ''v''" | "t = ''vn''" | "t = ''vt''" | "t = ''f''"
    by (auto simp: recognized_def spec_directive_def)
  then show ?thesis
  proof cases
    case 1
    with assms(2) tok obtain v where "spec_vector3 pf args = Some v" "e = Position v"
      by (auto simp: spec_line_def)
    with parseVertexLine_single [OF s ne this(1)] 1 d nonempty show ?thesis
      by (simp add: processLine_def del: Split.simps)
  next
    case 2
    with assms(2) tok obtain v where "spec_vector3 pf args = Some v" "e = Normal v"
      by (auto simp: spec_line_def)
    with parseVertexNormalLine_single [OF s ne this(1)] 2 d nonempty show ?thesis
      by (simp add: processLine_def del: Split.simps)
  next
    case 3
    with assms(2) tok obtain v where "spec_vector2 pf args = Some v" "e = TexCoord v"
      by (auto simp: spec_line_def)
    with parseVertexTextureLine_single [OF s ne this(1)] 3 d nonempty show ?thesis
      by (simp add: processLine_def del: Split.simps)
  next
    case 4
    with assms(2) tok obtain f where "spec_face obj args = Some f" "e = Triangle f"
      by (auto simp: spec_line_def)
    with parseFaceLine_single [OF s ne this(1)] 4 d nonempty show ?thesis
      by (simp add: processLine_def del: Split.simps)
  qed
qed

text \<open>All lines: by induction on the input, for any object and line number to start from.\<close>

lemma scanLines_refines:
  assumes "\<forall>l\<in>set lines. singleSpaced l \<or> \<not> recognized (spec_directive l)"
    and "spec_run pf obj lines = Some obj'"
  shows "scanLines pf obj k lines = Ok obj'"
  using assms
proof (induction lines arbitrary: obj k)
  case Nil
  then show ?case by simp
next
  case (Cons l ls)
  from Cons.prems(2) obtain e where
    e: "spec_line pf obj l = Some e" "spec_run pf (addEntry obj e) ls = Some obj'"
    by (auto split: option.splits)
  from Cons.prems(1) have "singleSpaced l \<or> \<not> recognized (spec_directive l)"
    by simp
  from processLine_refines [OF this e(1)]
  have "processLine pf obj l (k + 1) = Ok (addEntry obj e)" .
  moreover have "scanLines pf (addEntry obj e) (k + 1) ls = Ok obj'"
    using Cons.IH [of "addEntry obj e" "k + 1"] Cons.prems(1) e(2) by simp
  ultimately show ?case by simp
qed

text \<open>A valid input adds one face for each line whose directive is \<^verbatim>\<open>f\<close>.\<close>

lemma spec_line_Triangle_iff:
  "spec_line pf obj l = Some e \<Longrightarrow> (\<exists>f. e = Triangle f) \<longleftrightarrow> spec_directive l = Some ''f''"
  by (auto simp: spec_line_def spec_directive_def split: list.splits if_splits)

lemma spec_run_Faces_length:
  "spec_run pf obj lines = Some obj' \<Longrightarrow>
     length (Faces obj') = length (Faces obj) + spec_faceCount lines"
proof (induction lines arbitrary: obj)
  case Nil
  then show ?case by (simp add: spec_faceCount_def)
next
  case (Cons l ls)
  from Cons.prems obtain e where
    e: "spec_line pf obj l = Some e" "spec_run pf (addEntry obj e) ls = Some obj'"
    by (auto split: option.splits)
  have "length (Faces (addEntry obj e)) =
          length (Faces obj) + (if spec_directive l = Some ''f'' then 1 else 0)"
    using spec_line_Triangle_iff [OF e(1)] by (cases e) auto
  with Cons.IH [OF e(2)] show ?case
    by (simp add: spec_faceCount_def)
qed

section \<open>Loading valid input\<close>

text \<open>
  C1, as the specification states it, has every valid input load with one face for each
  of its face lines. In the input \<^verbatim>\<open>v 0 0 0\<close>, \<^verbatim>\<open>vt 0 0\<close>, \<^verbatim>\<open>vn 0 0 1\<close>,
  \<^verbatim>\<open> f 1/1/1 1/1/1 1/1/1\<close> the last line has a space in front: it is a face line
  with full triplets and indices in bounds, so the input is valid and has one face. The
  load succeeds, but with no face: the switch sees an empty first piece and skips the
  line.
\<close>

theorem leading_space_face_counterexample:
  "spec_load integerLiteral
     [''v 0 0 0'', ''vt 0 0'', ''vn 0 0 1'', '' f 1/1/1 1/1/1 1/1/1'']
   = Some
      [\<lparr>Vertices = (\<lparr>Vertex3.X = 0, Vertex3.Y = 0, Vertex3.Z = 0\<rparr>,
                    \<lparr>Vertex3.X = 0, Vertex3.Y = 0, Vertex3.Z = 0\<rparr>,
                    \<lparr>Vertex3.X = 0, Vertex3.Y = 0, Vertex3.Z = 0\<rparr>),
        Textures = (\<lparr>Vertex2.X = 0, Vertex2.Y = 0\<rparr>, \<lparr>Vertex2.X = 0, Vertex2.Y = 0\<rparr>,
                    \<lparr>Vertex2.X = 0, Vertex2.Y = 0\<rparr>),
        Normals = (\<lparr>Vertex3.X = 0, Vertex3.Y = 0, Vertex3.Z = 1\<rparr>,
                   \<lparr>Vertex3.X = 0, Vertex3.Y = 0, Vertex3.Z = 1\<rparr>,
                   \<lparr>Vertex3.X = 0, Vertex3.Y = 0, Vertex3.Z = 1\<rparr>)\<rparr>]
   \<and> spec_faceCount [''v 0 0 0'', ''vt 0 0'', ''vn 0 0 1'', '' f 1/1/1 1/1/1 1/1/1''] = 1
   \<and> loadObjFromFile integerLiteral
        [''v 0 0 0'', ''vt 0 0'', ''vn 0 0 1'', '' f 1/1/1 1/1/1 1/1/1'']
      = Ok \<lparr>Faces = [], vertices = [], textures = [], normals = []\<rparr>"
  by code_simp

text \<open>
  C1, amended. For every valid input (each \<^verbatim>\<open>v\<close>, \<^verbatim>\<open>vn\<close>, \<^verbatim>\<open>vt\<close> line with
  its numbers, each face line with full triplets whose indices lie within
  \<open>[1, current length]\<close> of the lists accumulated before it) in which every line with
  one of the four directives is single-spaced (one space between tokens, none in front
  or at the end), the load succeeds; the faces of the result are the faces of the face
  lines, resolved against the lists accumulated before each, in input order, and there
  are exactly as many as there are face lines. The three lists of the result are empty.
\<close>

theorem valid_single_spaced_input_loads:
  assumes "spec_load pf lines = Some faces"
    and "\<forall>l\<in>set lines. singleSpaced l \<or> \<not> recognized (spec_directive l)"
  shows "loadObjFromFile pf lines =
           Ok \<lparr>Faces = faces, vertices = [], textures = [], normals = []\<rparr> \<and>
         length faces = spec_faceCount lines"
proof -
  from assms(1) obtain obj where
    run: "spec_run pf emptyObj lines = Some obj" and faces: "faces = Faces obj"
    by (auto simp: spec_load_def)
  from scanLines_refines [OF assms(2) run] have "scanLines pf emptyObj 0 lines = Ok obj" .
  then have "loadObjFromFile pf lines =
               Ok \<lparr>Faces = faces, vertices = [], textures = [], normals = []\<rparr>"
    using faces by (simp add: loadObjFromFile_def)
  moreover from spec_run_Faces_length [OF run] have "length faces = spec_faceCount lines"
    using faces by (simp add: emptyObj_def)
  ultimately show ?thesis by simp
qed

theorem valid_single_spaced_input_loads_witness:
  "spec_load integerLiteral
     [''# two triangles'', ''v 0 0 0 255'', ''v 1 0 0'', '''', ''vt 0 1'', ''vn 0 0 1'',
      ''f 1/1/1 2/1/1 1/1/1'', ''  '', ''f 2/1/1 2/1/1 1/1/1 2/1/1'']
   = Some
      [\<lparr>Vertices = (\<lparr>Vertex3.X = 0, Vertex3.Y = 0, Vertex3.Z = 0\<rparr>,
                    \<lparr>Vertex3.X = 1, Vertex3.Y = 0, Vertex3.Z = 0\<rparr>,
                    \<lparr>Vertex3.X = 0, Vertex3.Y = 0, Vertex3.Z = 0\<rparr>),
        Textures = (\<lparr>Vertex2.X = 0, Vertex2.Y = 1\<rparr>, \<lparr>Vertex2.X = 0, Vertex2.Y = 1\<rparr>,
                    \<lparr>Vertex2.X = 0, Vertex2.Y = 1\<rparr>),
        Normals = (\<lparr>Vertex3.X = 0, Vertex3.Y = 0, Vertex3.Z = 1\<rparr>,
                   \<lparr>Vertex3.X = 0, Vertex3.Y = 0, Vertex3.Z = 1\<rparr>,
                   \<lparr>Vertex3.X = 0, Vertex3.Y = 0, Vertex3.Z = 1\<rparr>)\<rparr>,
       \<lparr>Vertices = (\<lparr>Vertex3.X = 1, Vertex3.Y = 0, Vertex3.Z = 0\<rparr>,
                    \<lparr>Vertex3.X = 1, Vertex3.Y = 0, Vertex3.Z = 0\<rparr>,
                    \<lparr>Vertex3.X = 0, Vertex3.Y = 0, Vertex3.Z = 0\<rparr>),
        Textures = (\<lparr>Vertex2.X = 0, Vertex2.Y = 1\<rparr>, \<lparr>Vertex2.X = 0, Vertex2.Y = 1\<rparr>,
                    \<lparr>Vertex2.X = 0, Vertex2.Y = 1\<rparr>),
        Normals = (\<lparr>Vertex3.X = 0, Vertex3.Y = 0, Vertex3.Z = 1\<rparr>,
                   \<lparr>Vertex3.X = 0, Vertex3.Y = 0, Vertex3.Z = 1\<rparr>,
                   \<lparr>Vertex3.X = 0, Vertex3.Y = 0, Vertex3.Z = 1\<rparr>)\<rparr>]
   \<and> list_all (\<lambda>l. singleSpaced l \<or> \<not> recognized (spec_directive l))
     [''# two triangles'', ''v 0 0 0 255'', ''v 1 0 0'', '''', ''vt 0 1'', ''vn 0 0 1'',
      ''f 1/1/1 2/1/1 1/1/1'', ''  '', ''f 2/1/1 2/1/1 1/1/1 2/1/1'']
   \<and> (\<exists>faces. loadObjFromFile integerLiteral
     [''# two triangles'', ''v 0 0 0 255'', ''v 1 0 0'', '''', ''vt 0 1'', ''vn 0 0 1'',
      ''f 1/1/1 2/1/1 1/1/1'', ''  '', ''f 2/1/1 2/1/1 1/1/1 2/1/1'']
      = Ok \<lparr>Faces = faces, vertices = [], textures = [], normals = []\<rparr> \<and>
      length faces = 2)"
proof -
  let ?lines = "[''# two triangles'', ''v 0 0 0 255'', ''v 1 0 0'', '''', ''vt 0 1'',
      ''vn 0 0 1'', ''f 1/1/1 2/1/1 1/1/1'', ''  '', ''f 2/1/1 2/1/1 1/1/1 2/1/1'']"
  let ?faces = "[\<lparr>Vertices = (\<lparr>Vertex3.X = 0, Vertex3.Y = 0, Vertex3.Z = 0\<rparr>,
                    \<lparr>Vertex3.X = 1, Vertex3.Y = 0, Vertex3.Z = 0\<rparr>,
                    \<lparr>Vertex3.X = 0, Vertex3.Y = 0, Vertex3.Z = 0\<rparr>),
        Textures = (\<lparr>Vertex2.X = 0, Vertex2.Y = 1\<rparr>, \<lparr>Vertex2.X = 0, Vertex2.Y = 1\<rparr>,
                    \<lparr>Vertex2.X = 0, Vertex2.Y = 1\<rparr>),
        Normals = (\<lparr>Vertex3.X = 0, Vertex3.Y = 0, Vertex3.Z = 1\<rparr>,
                   \<lparr>Vertex3.X = 0, Vertex3.Y = 0, Vertex3.Z = 1\<rparr>,
                   \<lparr>Vertex3.X = 0, Vertex3.Y = 0, Vertex3.Z = 1\<rparr>)\<rparr>,
       \<lparr>Vertices = (\<lparr>Vertex3.X = 1, Vertex3.Y = 0, Vertex3.Z = 0\<rparr>,
                    \<lparr>Vertex3.X = 1, Vertex3.Y = 0, Vertex3.Z = 0\<rparr>,
                    \<lparr>Vertex3.X = 0, Vertex3.Y = 0, Vertex3.Z = 0\<rparr>),
        Textures = (\<lparr>Vertex2.X = 0, Vertex2.Y = 1\<rparr>, \<lparr>Vertex2.X = 0, Vertex2.Y = 1\<rparr>,
                    \<lparr>Vertex2.X = 0, Vertex2.Y = 1\<rparr>),
        Normals = (\<lparr>Vertex3.X = 0, Vertex3.Y = 0, Vertex3.Z = 1\<rparr>,
                   \<lparr>Vertex3.X = 0, Vertex3.Y = 0, Vertex3.Z = 1\<rparr>,
                   \<lparr>Vertex3.X = 0, Vertex3.Y = 0, Vertex3.Z = 1\<rparr>)\<rparr>] :: int Face list"
  have a: "spec_load integerLiteral ?lines = Some ?faces"
    by code_simp
  have b: "list_all (\<lambda>l. singleSpaced l \<or> \<not> recognized (spec_directive l)) ?lines"
    by code_simp
  then have b': "\<forall>l\<in>set ?lines. singleSpaced l \<or> \<not> recognized (spec_directive l)"
    unfolding list_all_iff .
  have c: "spec_faceCount ?lines = 2"
    by code_simp
  from valid_single_spaced_input_loads [OF a b'] a b c show ?thesis
    by auto
qed

text \<open>
  C3. Loading the ten lines \<^verbatim>\<open>v 0 0 0\<close>, \<^verbatim>\<open>v 1 0 0\<close>, \<^verbatim>\<open>v 0 1 0\<close>,
  \<^verbatim>\<open>vt 0 0\<close>, \<^verbatim>\<open>vt 1 0\<close>, \<^verbatim>\<open>vt 0 1\<close>, \<^verbatim>\<open>vn 0 0 1\<close> (three times),
  \<^verbatim>\<open>f 1/1/1 2/2/2 3/3/3\<close> succeeds, with exactly one face, whose three positions are
  (0,0,0), (1,0,0), (0,1,0) in that order (and whose texture coordinates and normals are
  those of the input), for every float parser that reads "0" as \<open>zero\<close> and "1" as
  \<open>one\<close>.
\<close>

theorem spec_example_loads:
  assumes "pf ''0'' = Some zero" and "pf ''1'' = Some one"
  shows "loadObjFromFile pf
           [''v 0 0 0'', ''v 1 0 0'', ''v 0 1 0'', ''vt 0 0'', ''vt 1 0'', ''vt 0 1'',
            ''vn 0 0 1'', ''vn 0 0 1'', ''vn 0 0 1'', ''f 1/1/1 2/2/2 3/3/3'']
         = Ok \<lparr>Faces =
                [\<lparr>Vertices = (\<lparr>Vertex3.X = zero, Vertex3.Y = zero, Vertex3.Z = zero\<rparr>,
                               \<lparr>Vertex3.X = one, Vertex3.Y = zero, Vertex3.Z = zero\<rparr>,
                               \<lparr>Vertex3.X = zero, Vertex3.Y = one, Vertex3.Z = zero\<rparr>),
                  Textures = (\<lparr>Vertex2.X = zero, Vertex2.Y = zero\<rparr>,
                              \<lparr>Vertex2.X = one, Vertex2.Y = zero\<rparr>,
                              \<lparr>Vertex2.X = zero, Vertex2.Y = one\<rparr>),
                  Normals = (\<lparr>Vertex3.X = zero, Vertex3.Y = zero, Vertex3.Z = one\<rparr>,
                             \<lparr>Vertex3.X = zero, Vertex3.Y = zero, Vertex3.Z = one\<rparr>,
                             \<lparr>Vertex3.X = zero, Vertex3.Y = zero, Vertex3.Z = one\<rparr>)\<rparr>],
               vertices = [], textures = [], normals = []\<rparr>"
proof -
  let ?lines = "[''v 0 0 0'', ''v 1 0 0'', ''v 0 1 0'', ''vt 0 0'', ''vt 1 0'', ''vt 0 1'',
            ''vn 0 0 1'', ''vn 0 0 1'', ''vn 0 0 1'', ''f 1/1/1 2/2/2 3/3/3'']"
  have single: "list_all singleSpaced ?lines"
    by code_simp
  then have ok: "\<forall>l\<in>set ?lines. singleSpaced l \<or> \<not> recognized (spec_directive l)"
    unfolding list_all_iff by blast
  have tokens:
    "spec_tokens ''v 0 0 0'' = [''v'', ''0'', ''0'', ''0'']"
    "spec_tokens ''v 1 0 0'' = [''v'', ''1'', ''0'', ''0'']"
    "spec_tokens ''v 0 1 0'' = [''v'', ''0'', ''1'', ''0'']"
    "spec_tokens ''vt 0 0'' = [''vt'', ''0'', ''0'']"
    "spec_tokens ''vt 1 0'' = [''vt'', ''1'', ''0'']"
    "spec_tokens ''vt 0 1'' = [''vt'', ''0'', ''1'']"
    "spec_tokens ''vn 0 0 1'' = [''vn'', ''0'', ''0'', ''1'']"
    "spec_tokens ''f 1/1/1 2/2/2 3/3/3'' = [''f'', ''1/1/1'', ''2/2/2'', ''3/3/3'']"
    by code_simp+
  have triplets:
    "spec_triplet ''1/1/1'' = Some (1, 1, 1)"
    "spec_triplet ''2/2/2'' = Some (2, 2, 2)"
    "spec_triplet ''3/3/3'' = Some (3, 3, 3)"
    by code_simp+
  have "spec_run pf emptyObj ?lines =
     Some \<lparr>Faces =
                [\<lparr>Vertices = (\<lparr>Vertex3.X = zero, Vertex3.Y = zero, Vertex3.Z = zero\<rparr>,
                               \<lparr>Vertex3.X = one, Vertex3.Y = zero, Vertex3.Z = zero\<rparr>,
                               \<lparr>Vertex3.X = zero, Vertex3.Y = one, Vertex3.Z = zero\<rparr>),
                  Textures = (\<lparr>Vertex2.X = zero, Vertex2.Y = zero\<rparr>,
                              \<lparr>Vertex2.X = one, Vertex2.Y = zero\<rparr>,
                              \<lparr>Vertex2.X = zero, Vertex2.Y = one\<rparr>),
                  Normals = (\<lparr>Vertex3.X = zero, Vertex3.Y = zero, Vertex3.Z = one\<rparr>,
                             \<lparr>Vertex3.X = zero, Vertex3.Y = zero, Vertex3.Z = one\<rparr>,
                             \<lparr>Vertex3.X = zero, Vertex3.Y = zero, Vertex3.Z = one\<rparr>)\<rparr>],
           vertices = [\<lparr>Vertex3.X = zero, Vertex3.Y = zero, Vertex3.Z = zero\<rparr>,
                       \<lparr>Vertex3.X = one, Vertex3.Y = zero, Vertex3.Z = zero\<rparr>,
                       \<lparr>Vertex3.X = zero, Vertex3.Y = one, Vertex3.Z = zero\<rparr>],
           textures = [\<lparr>Vertex2.X = zero, Vertex2.Y = zero\<rparr>,
                       \<lparr>Vertex2.X = one, Vertex2.Y = zero\<rparr>,
                       \<lparr>Vertex2.X = zero, Vertex2.Y = one\<rparr>],
           normals = [\<lparr>Vertex3.X = zero, Vertex3.Y = zero, Vertex3.Z = one\<rparr>,
                      \<lparr>Vertex3.X = zero, Vertex3.Y = zero, Vertex3.Z = one\<rparr>,
                      \<lparr>Vertex3.X = zero, Vertex3.Y = zero, Vertex3.Z = one\<rparr>]\<rparr>"
    using assms
    by (simp add: spec_line_def tokens triplets spec_vector3_def spec_vector2_def
        spec_face_def spec_corner_def inBounds_def emptyObj_def del: Split.simps)
  from scanLines_refines [OF ok this, of 0] show ?thesis
    by (simp add: loadObjFromFile_def del: Split.simps)
qed

theorem spec_example_loads_witness:
  "integerLiteral ''0'' = Some 0 \<and> integerLiteral ''1'' = Some 1 \<and>
   loadObjFromFile integerLiteral
           [''v 0 0 0'', ''v 1 0 0'', ''v 0 1 0'', ''vt 0 0'', ''vt 1 0'', ''vt 0 1'',
            ''vn 0 0 1'', ''vn 0 0 1'', ''vn 0 0 1'', ''f 1/1/1 2/2/2 3/3/3'']
         = Ok \<lparr>Faces =
                [\<lparr>Vertices = (\<lparr>Vertex3.X = 0, Vertex3.Y = 0, Vertex3.Z = 0\<rparr>,
                               \<lparr>Vertex3.X = 1, Vertex3.Y = 0, Vertex3.Z = 0\<rparr>,
                               \<lparr>Vertex3.X = 0, Vertex3.Y = 1, Vertex3.Z = 0\<rparr>),
                  Textures = (\<lparr>Vertex2.X = 0, Vertex2.Y = 0\<rparr>,
                              \<lparr>Vertex2.X = 1, Vertex2.Y = 0\<rparr>,
                              \<lparr>Vertex2.X = 0, Vertex2.Y = 1\<rparr>),
                  Normals = (\<lparr>Vertex3.X = 0, Vertex3.Y = 0, Vertex3.Z = 1\<rparr>,
                             \<lparr>Vertex3.X = 0, Vertex3.Y = 0, Vertex3.Z = 1\<rparr>,
                             \<lparr>Vertex3.X = 0, Vertex3.Y = 0, Vertex3.Z = 1\<rparr>)\<rparr>],
               vertices = [], textures = [], normals = []\<rparr>"
proof -
  have z: "integerLiteral ''0'' = Some 0"
    by code_simp
  have o: "integerLiteral ''1'' = Some 1"
    by code_simp
  from spec_example_loads [OF z o] z o show ?thesis
    by simp
qed

section \<open>Indices beyond the lists\<close>

lemma parseFaceGroup_cases:
  assumes "spec_triplet g = Some t" and "positive t"
  shows "(\<not> exceeds obj t \<and> (\<exists>c. parseFaceGroup obj g n = Ok c)) \<or>
         (exceeds obj t \<and>
          (\<exists>d i. parseFaceGroup obj g n = Err (UnableToResolve d i n) \<and>
                 i > int (listLength obj d)))"
proof -
  obtain i j k where t: "t = (i, j, k)"
    by (cases t)
  with assms have "spec_triplet g = Some (i, j, k)" "1 \<le> i" "1 \<le> j" "1 \<le> k"
    by (simp_all add: positive_def)
  from parseFaceGroup_triplet [OF this, of obj n] show ?thesis
    unfolding t exceeds_def
    by (auto intro: exI [of _ VertexD] exI [of _ VertexTextureD] exI [of _ VertexNormalD])
qed

text \<open>
  The three groups are handled in turn, so the error comes from the first group that has
  an index beyond its list.
\<close>

lemma parseFaceLine_unresolved:
  assumes "singleSpaced line" and "spec_faceTriplets line = Some ts"
    and "list_all positive ts" and "list_ex (exceeds obj) ts"
  shows "\<exists>d i. parseFaceLine obj line n = Err (UnableToResolve d i n) \<and>
               i > int (listLength obj d)"
proof -
  have tok: "spec_tokens line = Split line CHR '' ''"
    using assms(1) by (auto simp: spec_tokens_def singleSpaced_def filter_id_conv)
  from assms(2) obtain g1 g2 g3 more a b c where
    s: "Split line CHR '' '' = ''f'' # g1 # g2 # g3 # more" and
    t: "spec_triplet g1 = Some a" "spec_triplet g2 = Some b" "spec_triplet g3 = Some c" and
    ts: "ts = [a, b, c]"
    unfolding spec_faceTriplets_def tok
    by (auto split: list.splits if_splits option.splits)
  have r: "removeEmpty (''f'' # g1 # g2 # g3 # more) = Ok (''f'' # g1 # g2 # g3 # more)"
    using assms(1) s by (intro removeEmpty_no_empty) (simp add: singleSpaced_def)
  from assms(3) ts have p: "positive a" "positive b" "positive c"
    by simp_all
  note g1 = parseFaceGroup_cases [OF t(1) p(1), of obj n]
  note g2 = parseFaceGroup_cases [OF t(2) p(2), of obj n]
  note g3 = parseFaceGroup_cases [OF t(3) p(3), of obj n]
  have unfold: "parseFaceLine obj line n =
      thenDo (parseFaceGroup obj g1 n) (\<lambda>(v1, t1, n1).
      thenDo (parseFaceGroup obj g2 n) (\<lambda>(v2, t2, n2).
      thenDo (parseFaceGroup obj g3 n) (\<lambda>(v3, t3, n3).
        Ok (obj\<lparr>Faces := Faces obj @
                  [\<lparr>Vertices = (v1, v2, v3), Textures = (t1, t2, t3),
                    Normals = (n1, n2, n3)\<rparr>]\<rparr>))))"
    using s r by (simp add: parseFaceLine_def index_Cons_nat del: Split.simps)
  show ?thesis
  proof (cases "exceeds obj a")
    case True
    with g1 show ?thesis
      unfolding unfold by auto
  next
    case False
    with g1 obtain c1 where c1: "parseFaceGroup obj g1 n = Ok c1"
      by auto
    show ?thesis
    proof (cases "exceeds obj b")
      case True
      with g2 show ?thesis
        unfolding unfold c1 by (auto simp: split_beta)
    next
      case False
      with g2 obtain c2 where c2: "parseFaceGroup obj g2 n = Ok c2"
        by auto
      from assms(4) ts \<open>\<not> exceeds obj a\<close> False have "exceeds obj c"
        by simp
      with g3 show ?thesis
        unfolding unfold c1 c2 by (auto simp: split_beta)
    qed
  qed
qed

text \<open>
  C7, as the specification states it, has every face line with an index sub-field beyond
  its list fail. After the lines \<^verbatim>\<open>v 0 0 0\<close>, \<^verbatim>\<open>vt 0 0\<close>, \<^verbatim>\<open>vn 0 0 1\<close> the
  lists have one entry each; the face line \<^verbatim>\<open>f 1/1/1 1/1/1 1/1/1 9/9/9\<close> has the
  sub-fields 9 in its fourth group, and the load succeeds with one face: only the first
  three groups are read.
\<close>

theorem fourth_group_counterexample:
  "loadObjFromFile integerLiteral
     [''v 0 0 0'', ''vt 0 0'', ''vn 0 0 1'', ''f 1/1/1 1/1/1 1/1/1 9/9/9'']
   = Ok \<lparr>Faces =
          [\<lparr>Vertices = (\<lparr>Vertex3.X = 0, Vertex3.Y = 0, Vertex3.Z = 0\<rparr>,
                        \<lparr>Vertex3.X = 0, Vertex3.Y = 0, Vertex3.Z = 0\<rparr>,
                        \<lparr>Vertex3.X = 0, Vertex3.Y = 0, Vertex3.Z = 0\<rparr>),
            Textures = (\<lparr>Vertex2.X = 0, Vertex2.Y = 0\<rparr>, \<lparr>Vertex2.X = 0, Vertex2.Y = 0\<rparr>,
                        \<lparr>Vertex2.X = 0, Vertex2.Y = 0\<rparr>),
            Normals = (\<lparr>Vertex3.X = 0, Vertex3.Y = 0, Vertex3.Z = 1\<rparr>,
                       \<lparr>Vertex3.X = 0, Vertex3.Y = 0, Vertex3.Z = 1\<rparr>,
                       \<lparr>Vertex3.X = 0, Vertex3.Y = 0, Vertex3.Z = 1\<rparr>)\<rparr>],
         vertices = [], textures = [], normals = []\<rparr>
   \<and> spec_triplet ''9/9/9'' = Some (9, 9, 9)"
  by code_simp

text \<open>
  C7, amended. For every single-spaced face line whose first three vertex groups are full
  triplets of indices that are at least 1: if one of these nine indices exceeds the
  length that the list it refers to (positions, texture coordinates or normals) has at
  the moment the line is processed, the load fails with the unable-to-resolve error for
  the number of that line, naming a list and an id greater than the length of that
  list, whatever lines follow. In particular a face that refers to a vertex declared on
  a later line fails.
\<close>

theorem out_of_range_index_unresolved:
  assumes "scanLines pf emptyObj 0 before = Ok obj"
    and "singleSpaced line"
    and "spec_faceTriplets line = Some ts"
    and "list_all positive ts"
    and "list_ex (exceeds obj) ts"
  shows "\<exists>d i. loadObjFromFile pf (before @ line # after)
                  = Err (UnableToResolve d i (length before + 1)) \<and>
               i > int (listLength obj d)"
proof -
  from parseFaceLine_unresolved [OF assms(2-5), of "length before + 1"] obtain d i where
    di: "parseFaceLine obj line (length before + 1)
           = Err (UnableToResolve d i (length before + 1))"
        "i > int (listLength obj d)"
    by blast
  have tok: "spec_tokens line = Split line CHR '' ''"
    using assms(2) by (auto simp: spec_tokens_def singleSpaced_def filter_id_conv)
  from assms(3) have "takeWhile (\<lambda>c. c \<noteq> CHR '' '') line = ''f''"
    unfolding spec_faceTriplets_def tok hd_Split [symmetric]
    by (auto split: list.splits if_splits)
  then have "processLine pf obj line (length before + 1)
               = parseFaceLine obj line (length before + 1)"
    by (simp add: processLine_first_piece)
  with di(1) have "scanLines pf emptyObj 0 (before @ line # after)
                     = Err (UnableToResolve d i (length before + 1))"
    using assms(1) by (simp add: scanLines_append)
  then have "loadObjFromFile pf (before @ line # after)
               = Err (UnableToResolve d i (length before + 1))"
    by (simp add: loadObjFromFile_def)
  with di(2) show ?thesis
    by blast
qed

theorem out_of_range_index_unresolved_witness:
  "scanLines integerLiteral emptyObj 0 [''v 0 0 0'', ''vt 0 0'', ''vn 0 0 1'']
     = Ok \<lparr>Faces = [], vertices = [\<lparr>Vertex3.X = 0, Vertex3.Y = 0, Vertex3.Z = 0\<rparr>],
           textures = [\<lparr>Vertex2.X = 0, Vertex2.Y = 0\<rparr>],
           normals = [\<lparr>Vertex3.X = 0, Vertex3.Y = 0, Vertex3.Z = 1\<rparr>]\<rparr> \<and>
   singleSpaced ''f 1/1/1 2/1/1 1/1/1'' \<and>
   spec_faceTriplets ''f 1/1/1 2/1/1 1/1/1'' = Some [(1, 1, 1), (2, 1, 1), (1, 1, 1)] \<and>
   list_all positive [(1, 1, 1), (2, 1, 1), (1, 1, 1)] \<and>
   list_ex (exceeds \<lparr>Faces = [], vertices = [\<lparr>Vertex3.X = 0, Vertex3.Y = 0, Vertex3.Z = 0\<rparr>],
           textures = [\<lparr>Vertex2.X = (0::int), Vertex2.Y = 0\<rparr>],
           normals = [\<lparr>Vertex3.X = 0, Vertex3.Y = 0, Vertex3.Z = 1\<rparr>]\<rparr>)
     [(1, 1, 1), (2, 1, 1), (1, 1, 1)] \<and>
   loadObjFromFile integerLiteral
     ([''v 0 0 0'', ''vt 0 0'', ''vn 0 0 1''] @ ''f 1/1/1 2/1/1 1/1/1'' # [''v 1 0 0''])
     = Err (UnableToResolve VertexD 2 4) \<and>
   (\<exists>d i. loadObjFromFile integerLiteral
       ([''v 0 0 0'', ''vt 0 0'', ''vn 0 0 1''] @ ''f 1/1/1 2/1/1 1/1/1'' # [''v 1 0 0''])
       = Err (UnableToResolve d i (length [''v 0 0 0'', ''vt 0 0'', ''vn 0 0 1''] + 1)) \<and>
     i > int (listLength
       \<lparr>Faces = [], vertices = [\<lparr>Vertex3.X = 0, Vertex3.Y = 0, Vertex3.Z = 0\<rparr>],
        textures = [\<lparr>Vertex2.X = (0::int), Vertex2.Y = 0\<rparr>],
        normals = [\<lparr>Vertex3.X = 0, Vertex3.Y = 0, Vertex3.Z = 1\<rparr>]\<rparr> d))"
proof -
  let ?obj = "\<lparr>Faces = [], vertices = [\<lparr>Vertex3.X = 0, Vertex3.Y = 0, Vertex3.Z = 0\<rparr>],
           textures = [\<lparr>Vertex2.X = 0, Vertex2.Y = 0\<rparr>],
           normals = [\<lparr>Vertex3.X = 0, Vertex3.Y = 0, Vertex3.Z = 1\<rparr>]\<rparr> :: int Obj"
  have a: "scanLines integerLiteral emptyObj 0 [''v 0 0 0'', ''vt 0 0'', ''vn 0 0 1'']
             = Ok ?obj"
    by code_simp
  have b: "singleSpaced ''f 1/1/1 2/1/1 1/1/1''"
    by code_simp
  have c: "spec_faceTriplets ''f 1/1/1 2/1/1 1/1/1'' = Some [(1, 1, 1), (2, 1, 1), (1, 1, 1)]"
    by code_simp
  have d: "list_all positive [(1, 1, 1), (2, 1, 1), (1, 1, 1)]"
    by (simp add: positive_def)
  have e: "list_ex (exceeds ?obj) [(1, 1, 1), (2, 1, 1), (1, 1, 1)]"
    by (simp add: exceeds_def)
  have f: "loadObjFromFile integerLiteral
     ([''v 0 0 0'', ''vt 0 0'', ''vn 0 0 1''] @ ''f 1/1/1 2/1/1 1/1/1'' # [''v 1 0 0''])
     = Err (UnableToResolve VertexD 2 4)"
    by code_simp
  note g = out_of_range_index_unresolved [OF a b c d e, of "[''v 1 0 0'']"]
  from a b c d e f g show ?thesis
    by blast
qed

end
